theory Spec2Isabelle
  imports Main "HOL-Library.Multiset"
begin

section \<open>The notification grouping engine of web/hooks/use-notifications.ts\<close>

text \<open>
  The development embeds \<^verbatim>\<open>groupNotifications\<close> together with the library and
  platform operations it is built from: lodash's \<^verbatim>\<open>groupBy\<close>, \<^verbatim>\<open>partition\<close> and
  \<^verbatim>\<open>map\<close>, the property order of a JavaScript object, \<^verbatim>\<open>Array.prototype.sort\<close>
  and \<^verbatim>\<open>Date.prototype.toDateString\<close>.
\<close>

subsection \<open>Data model\<close>

text \<open>
  Modelled from the spec: the type \<^verbatim>\<open>Notification\<close> of common/notification, which is
  imported by the hook and not part of the sources. The fields are the ones the spec's
  data model lists and the hook reads. \<^verbatim>\<open>id\<close> is written \<open>id_field\<close> (HOL has a
  constant \<open>id\<close>). \<open>createdTime\<close> is a number holding epoch milliseconds, modelled as
  an integer; \<open>sourceType\<close> and \<open>sourceContractId\<close> may be absent (\<open>None\<close> is
  JavaScript's \<^verbatim>\<open>undefined\<close>).
\<close>

record Notification =
  id_field :: string
  createdTime :: int
  isSeen :: bool
  sourceType :: "string option"
  sourceContractId :: "string option"

text \<open>The two values of the field \<^verbatim>\<open>type: 'income' | 'normal'\<close>.\<close>

datatype GroupType = Income | Normal

record NotificationGroup =
  notifications :: "Notification list"
  groupedById :: string
  isSeen :: bool
  timePeriod :: string
  type :: GroupType

text \<open>
  The only exception the function could raise: a property read on \<^verbatim>\<open>undefined\<close>
  (\<^verbatim>\<open>undefined.sort\<close>, \<^verbatim>\<open>undefined.isSeen\<close>).
\<close>

datatype error = TypeError

subsection \<open>JavaScript objects with string keys\<close>

text \<open>
  An object is the list of its own properties in creation order, with distinct keys.
  \<open>getProp\<close> is the read \<^verbatim>\<open>obj[key]\<close>, \<open>None\<close> standing for \<^verbatim>\<open>undefined\<close>.
\<close>

type_synonym 'v jsObject = "(string \<times> 'v) list"

definition getProp :: "'v jsObject \<Rightarrow> string \<Rightarrow> 'v option" where
  "getProp obj key = map_of obj key"

definition hasOwnProperty :: "'v jsObject \<Rightarrow> string \<Rightarrow> bool" where
  "hasOwnProperty obj key = (key \<in> set (map fst obj))"

text \<open>
  An array index is the canonical decimal numeral of an integer from 0 to \<open>2^32 - 2\<close>:
  digits only, no leading zero unless the string is \<^verbatim>\<open>"0"\<close>.
\<close>

definition isDigit :: "char \<Rightarrow> bool" where
  "isDigit c = (c \<in> set ''0123456789'')"

definition digitValue :: "char \<Rightarrow> int" where
  "digitValue c = of_char c - of_char CHR ''0''"

definition decimalValue :: "string \<Rightarrow> int" where
  "decimalValue s = foldl (\<lambda>acc c. 10 * acc + digitValue c) 0 s"

definition isArrayIndex :: "string \<Rightarrow> bool" where
  "isArrayIndex s =
     (s \<noteq> [] \<and> list_all isDigit s \<and> (hd s \<noteq> CHR ''0'' \<or> length s = 1)
      \<and> decimalValue s < 4294967295)"

text \<open>
  The order in which the own property keys of an object are listed, given the keys in
  creation order: the array-index keys in ascending numeric order first, then every
  other key in creation order.
\<close>

definition ownPropertyKeys :: "string list \<Rightarrow> string list" where
  "ownPropertyKeys keys =
     sort_key decimalValue (filter isArrayIndex keys) @ filter (\<lambda>k. \<not> isArrayIndex k) keys"

text \<open>\<^verbatim>\<open>Object.keys\<close>; lodash iterates over an object in the same order.\<close>

definition objectKeys :: "'v jsObject \<Rightarrow> string list" where
  "objectKeys obj = ownPropertyKeys (map fst obj)"

subsection \<open>lodash: groupBy, partition, map over an object\<close>

text \<open>
  The setter of \<^verbatim>\<open>groupBy\<close>: push onto the array of an existing key, or create
  the property with a one-element array (a new property comes last in creation order).
\<close>

definition groupBySetter :: "('a list) jsObject \<Rightarrow> 'a \<Rightarrow> string \<Rightarrow> ('a list) jsObject" where
  "groupBySetter result v key =
     (if hasOwnProperty result key
      then map (\<lambda>(k, vs). if k = key then (k, vs @ [v]) else (k, vs)) result
      else result @ [(key, [v])])"

definition groupBy :: "'a list \<Rightarrow> ('a \<Rightarrow> string) \<Rightarrow> ('a list) jsObject" where
  "groupBy collection iteratee =
     foldl (\<lambda>result v. groupBySetter result v (iteratee v)) [] collection"

definition partition_lodash :: "'a list \<Rightarrow> ('a \<Rightarrow> bool) \<Rightarrow> 'a list \<times> 'a list" where
  "partition_lodash collection predicate =
     (filter predicate collection, filter (\<lambda>v. \<not> predicate v) collection)"

text \<open>Running a list of fallible steps in order, stopping at the first exception.\<close>

fun mapE :: "('k \<Rightarrow> error + 'b) \<Rightarrow> 'k list \<Rightarrow> error + 'b list" where
  "mapE f [] = Inr []"
| "mapE f (k # ks) =
     (case f k of
        Inl e \<Rightarrow> Inl e
      | Inr y \<Rightarrow> (case mapE f ks of Inl e \<Rightarrow> Inl e | Inr ys \<Rightarrow> Inr (y # ys)))"

text \<open>
  \<^verbatim>\<open>map(object, iteratee)\<close> calls \<^verbatim>\<open>iteratee(object[key], key)\<close> for the keys of
  the object in \<^verbatim>\<open>Object.keys\<close> order.
\<close>

definition map_lodash :: "'v jsObject \<Rightarrow> ('v option \<Rightarrow> string \<Rightarrow> error + 'b) \<Rightarrow> error + 'b list" where
  "map_lodash object iteratee = mapE (\<lambda>key. iteratee (getProp object key) key) (objectKeys object)"

text \<open>\<^verbatim>\<open>keys.forEach(body)\<close> where the body updates a variable of the enclosing scope.\<close>

fun forEach :: "'k list \<Rightarrow> ('k \<Rightarrow> 's \<Rightarrow> error + 's) \<Rightarrow> 's \<Rightarrow> error + 's" where
  "forEach [] body s = Inr s"
| "forEach (k # ks) body s =
     (case body k s of Inl e \<Rightarrow> Inl e | Inr s' \<Rightarrow> forEach ks body s')"

subsection \<open>Array.prototype.sort\<close>

text \<open>
  The sort is stable: an element moves before another only if the comparator asks for
  it. \<open>sort_js\<close> inserts from the right, each element before the first one it does
  not have to follow.
\<close>

fun insert_js :: "('a \<Rightarrow> 'a \<Rightarrow> int) \<Rightarrow> 'a \<Rightarrow> 'a list \<Rightarrow> 'a list" where
  "insert_js comparefn x [] = [x]"
| "insert_js comparefn x (y # ys) =
     (if comparefn x y \<le> 0 then x # y # ys else y # insert_js comparefn x ys)"

definition sort_js :: "('a \<Rightarrow> 'a \<Rightarrow> int) \<Rightarrow> 'a list \<Rightarrow> 'a list" where
  "sort_js comparefn xs = foldr (insert_js comparefn) xs []"

subsection \<open>Date.prototype.toDateString\<close>

text \<open>
  \<^verbatim>\<open>new Date(t).toDateString()\<close> as ECMAScript defines it. The time zone of the
  process is the parameter \<open>localTZA\<close>: the offset of local time from UTC, in
  milliseconds, at a given time. The civil date is computed from the day number by
  eras of 400 years (146097 days), counted from 1 March of year 0.
\<close>

definition msPerDay :: int where
  "msPerDay = 86400000"

definition Day :: "int \<Rightarrow> int" where
  "Day t = t div msPerDay"

definition WeekDay :: "int \<Rightarrow> int" where
  "WeekDay t = (Day t + 4) mod 7"

definition civilFromDays :: "int \<Rightarrow> int \<times> int \<times> int" where
  "civilFromDays days =
     (let z = days + 719468;
          era = z div 146097;
          doe = z - era * 146097;
          yoe = (doe - doe div 1460 + doe div 36524 - doe div 146096) div 365;
          doy = doe - (365 * yoe + yoe div 4 - yoe div 100);
          mp = (5 * doy + 2) div 153;
          d = doy - (153 * mp + 2) div 5 + 1;
          m = (if mp < 10 then mp + 3 else mp - 9);
          y = yoe + era * 400 + (if m \<le> 2 then 1 else 0)
      in (y, m - 1, d))"

definition YearFromTime :: "int \<Rightarrow> int" where
  "YearFromTime t = fst (civilFromDays (Day t))"

definition MonthFromTime :: "int \<Rightarrow> int" where
  "MonthFromTime t = fst (snd (civilFromDays (Day t)))"

definition DateFromTime :: "int \<Rightarrow> int" where
  "DateFromTime t = snd (snd (civilFromDays (Day t)))"

definition weekDayName :: "int \<Rightarrow> string" where
  "weekDayName w =
     (if w = 0 then ''Sun'' else if w = 1 then ''Mon'' else if w = 2 then ''Tue''
      else if w = 3 then ''Wed'' else if w = 4 then ''Thu'' else if w = 5 then ''Fri''
      else ''Sat'')"

definition monthName :: "int \<Rightarrow> string" where
  "monthName m =
     (if m = 0 then ''Jan'' else if m = 1 then ''Feb'' else if m = 2 then ''Mar''
      else if m = 3 then ''Apr'' else if m = 4 then ''May'' else if m = 5 then ''Jun''
      else if m = 6 then ''Jul'' else if m = 7 then ''Aug'' else if m = 8 then ''Sep''
      else if m = 9 then ''Oct'' else if m = 10 then ''Nov'' else ''Dec'')"

definition digitChar :: "nat \<Rightarrow> char" where
  "digitChar d = ''0123456789'' ! d"

fun decimalString :: "nat \<Rightarrow> string" where
  "decimalString n =
     (if n < 10 then [digitChar n] else decimalString (n div 10) @ [digitChar (n mod 10)])"

declare decimalString.simps [simp del]

definition ToZeroPaddedDecimalString :: "nat \<Rightarrow> nat \<Rightarrow> string" where
  "ToZeroPaddedDecimalString n minLength =
     (let s = decimalString n in replicate (minLength - length s) CHR ''0'' @ s)"

definition DateString :: "int \<Rightarrow> string" where
  "DateString tv =
     (let yv = YearFromTime tv;
          yearSign = (if 0 \<le> yv then [] else ''-'')
      in weekDayName (WeekDay tv) @ '' '' @ monthName (MonthFromTime tv) @ '' ''
         @ ToZeroPaddedDecimalString (nat (DateFromTime tv)) 2 @ '' ''
         @ yearSign @ ToZeroPaddedDecimalString (nat \<bar>yv\<bar>) 4)"

definition toDateString :: "(int \<Rightarrow> int) \<Rightarrow> int \<Rightarrow> string" where
  "toDateString localTZA t =
     (if \<bar>t\<bar> > 8640000000000000 then ''Invalid Date''
      else DateString (t + localTZA t))"

subsection \<open>groupNotifications\<close>

definition incomeSourceTypes :: "string list" where
  "incomeSourceTypes = [''bonus'', ''tip'', ''loan'', ''betting_streak_bonus'', ''tip_and_like'']"

text \<open>The predicate of the partition: \<^verbatim>\<open>incomeSourceTypes.includes(n.sourceType ?? '')\<close>.\<close>

definition isIncome :: "Notification \<Rightarrow> bool" where
  "isIncome notification =
     ((case sourceType notification of None \<Rightarrow> [] | Some s \<Rightarrow> s)
        \<in> set incomeSourceTypes)"

text \<open>
  The key \<^verbatim>\<open>groupBy\<close> files a record under when the iteratee returns its
  \<^verbatim>\<open>sourceContractId\<close>: a property key is a string, and \<^verbatim>\<open>undefined\<close> converts to
  the string \<^verbatim>\<open>"undefined"\<close>.
\<close>

definition contractKey :: "Notification \<Rightarrow> string" where
  "contractKey notification =
     (case sourceContractId notification of None \<Rightarrow> ''undefined'' | Some c \<Rightarrow> c)"

text \<open>The comparator \<^verbatim>\<open>(a, b) => b.createdTime - a.createdTime\<close>.\<close>

definition compareCreatedTime :: "Notification \<Rightarrow> Notification \<Rightarrow> int" where
  "compareCreatedTime a b = createdTime b - createdTime a"

text \<open>
  The callback of \<^verbatim>\<open>map\<close>, lines 81 to 96. Its first argument is not used: the
  array is read again from the object, and sorted.
\<close>

definition notificationGroup ::
  "string \<Rightarrow> (Notification list) jsObject \<Rightarrow> Notification list option \<Rightarrow> string
     \<Rightarrow> error + NotificationGroup" where
  "notificationGroup day groupedNotificationsByContractId notifications_arg contractId =
     (case getProp groupedNotificationsByContractId contractId of
        None \<Rightarrow> Inl TypeError
      | Some arr \<Rightarrow>
          (let notificationsForContractId = sort_js compareCreatedTime arr
           in Inr \<lparr> notifications = notificationsForContractId,
                    groupedById = contractId,
                    isSeen = list_ex (\<lambda>n. \<not> Notification.isSeen n) notificationsForContractId,
                    timePeriod = day,
                    type = Normal \<rparr>))"

text \<open>
  The body of the loop over the days, lines 57 to 98. lodash reads an
  \<^verbatim>\<open>undefined\<close> collection as an empty one.
\<close>

definition dayBody ::
  "(Notification list) jsObject \<Rightarrow> string \<Rightarrow> NotificationGroup list
     \<Rightarrow> error + NotificationGroup list" where
  "dayBody notificationGroupsByDay day notificationGroups =
     (let notificationsGroupedByDay =
            (case getProp notificationGroupsByDay day of None \<Rightarrow> [] | Some ns \<Rightarrow> ns);
          (incomeNotifications, normalNotificationsGroupedByDay) =
            partition_lodash notificationsGroupedByDay isIncome;
          withIncome =
            (if length incomeNotifications > 0
             then (case incomeNotifications of
                     [] \<Rightarrow> Inl TypeError
                   | first # _ \<Rightarrow>
                       Inr (notificationGroups @
                            [\<lparr> notifications = incomeNotifications,
                               groupedById = ''income'' @ day,
                               isSeen = Notification.isSeen first,
                               timePeriod = day,
                               type = Income \<rparr>]))
             else Inr notificationGroups)
      in case withIncome of
           Inl e \<Rightarrow> Inl e
         | Inr notificationGroups1 \<Rightarrow>
             (let groupedNotificationsByContractId =
                    groupBy normalNotificationsGroupedByDay contractKey
              in case map_lodash groupedNotificationsByContractId
                        (notificationGroup day groupedNotificationsByContractId) of
                   Inl e \<Rightarrow> Inl e
                 | Inr groups \<Rightarrow> Inr (notificationGroups1 @ groups)))"

definition groupNotifications ::
  "(int \<Rightarrow> int) \<Rightarrow> Notification list \<Rightarrow> error + NotificationGroup list" where
  "groupNotifications localTZA notifications_in =
     (let notificationGroupsByDay =
            groupBy notifications_in (\<lambda>notification. toDateString localTZA (createdTime notification))
      in forEach (objectKeys notificationGroupsByDay) (dayBody notificationGroupsByDay) [])"

subsection \<open>Closed forms of the result\<close>

text \<open>
  The definitions of this subsection are not part of the program. They name what the
  program computes, for the statements and proofs below: the keys of a list in the order
  of their first appearance, the day label of a record, and the groups of one day.
\<close>

fun firstSeen :: "'a list \<Rightarrow> 'a list" where
  "firstSeen [] = []"
| "firstSeen (k # ks) = k # filter (\<lambda>k'. k' \<noteq> k) (firstSeen ks)"

definition dayOf :: "(int \<Rightarrow> int) \<Rightarrow> Notification \<Rightarrow> string" where
  "dayOf localTZA notification = toDateString localTZA (createdTime notification)"

definition incomeGroups :: "string \<Rightarrow> Notification list \<Rightarrow> NotificationGroup list" where
  "incomeGroups day members =
     (case members of
        [] \<Rightarrow> []
      | first # _ \<Rightarrow>
          [\<lparr> notifications = members, groupedById = ''income'' @ day,
             isSeen = Notification.isSeen first, timePeriod = day, type = Income \<rparr>])"

definition normalGroup :: "string \<Rightarrow> Notification list \<Rightarrow> string \<Rightarrow> NotificationGroup" where
  "normalGroup day normals key =
     (let members = sort_js compareCreatedTime (filter (\<lambda>n. contractKey n = key) normals)
      in \<lparr> notifications = members, groupedById = key,
           isSeen = list_ex (\<lambda>n. \<not> Notification.isSeen n) members,
           timePeriod = day, type = Normal \<rparr>)"

definition normalGroups :: "string \<Rightarrow> Notification list \<Rightarrow> NotificationGroup list" where
  "normalGroups day normals =
     map (normalGroup day normals) (ownPropertyKeys (firstSeen (map contractKey normals)))"

definition dayGroups :: "string \<Rightarrow> Notification list \<Rightarrow> NotificationGroup list" where
  "dayGroups day dayNotifications =
     incomeGroups day (filter isIncome dayNotifications)
     @ normalGroups day (filter (\<lambda>n. \<not> isIncome n) dayNotifications)"

definition groupTag :: "NotificationGroup \<Rightarrow> string \<times> GroupType \<times> string" where
  "groupTag g = (timePeriod g, type g, groupedById g)"

subsection \<open>Example feeds\<close>

text \<open>
  Concrete inputs, with the results the function computes on them, for the instances
  and counterexamples below. All of them are read in UTC (\<open>localTZA = (\<lambda>_. 0)\<close>).
  The first feed has two days, two income records, a contract with a tie in
  \<open>createdTime\<close> and a record without contract.
\<close>

definition rec_a :: Notification where
  "rec_a = \<lparr> id_field = ''a'', createdTime = 100, isSeen = True,
      sourceType = Some ''comment'', sourceContractId = Some ''m1'' \<rparr>"

definition rec_b :: Notification where
  "rec_b = \<lparr> id_field = ''b'', createdTime = 300, isSeen = False,
      sourceType = Some ''tip'', sourceContractId = None \<rparr>"

definition rec_c :: Notification where
  "rec_c = \<lparr> id_field = ''c'', createdTime = 300, isSeen = False,
      sourceType = None, sourceContractId = Some ''m1'' \<rparr>"

definition rec_d :: Notification where
  "rec_d = \<lparr> id_field = ''d'', createdTime = 100, isSeen = True,
      sourceType = Some ''comment'', sourceContractId = Some ''m1'' \<rparr>"

definition rec_e :: Notification where
  "rec_e = \<lparr> id_field = ''e'', createdTime = 86400000, isSeen = True,
      sourceType = None, sourceContractId = None \<rparr>"

definition rec_f :: Notification where
  "rec_f = \<lparr> id_field = ''f'', createdTime = 200, isSeen = True,
      sourceType = Some ''bonus'', sourceContractId = Some ''m2'' \<rparr>"

definition exampleFeed :: "Notification list" where
  "exampleFeed = [rec_a, rec_b, rec_c, rec_d, rec_e, rec_f]"

definition group_income :: NotificationGroup where
  "group_income = \<lparr> notifications = [rec_b, rec_f], groupedById = ''incomeThu Jan 01 1970'',
      isSeen = False, timePeriod = ''Thu Jan 01 1970'', type = Income \<rparr>"

definition group_m1 :: NotificationGroup where
  "group_m1 = \<lparr> notifications = [rec_c, rec_a, rec_d], groupedById = ''m1'',
      isSeen = True, timePeriod = ''Thu Jan 01 1970'', type = Normal \<rparr>"

definition group_undefined :: NotificationGroup where
  "group_undefined = \<lparr> notifications = [rec_e], groupedById = ''undefined'',
      isSeen = False, timePeriod = ''Fri Jan 02 1970'', type = Normal \<rparr>"

definition exampleGroups :: "NotificationGroup list" where
  "exampleGroups = [group_income, group_m1, group_undefined]"

text \<open>One contract on two days.\<close>

definition rec_x1 :: Notification where
  "rec_x1 = \<lparr> id_field = ''x1'', createdTime = 0, isSeen = False,
      sourceType = None, sourceContractId = Some ''m1'' \<rparr>"

definition rec_x2 :: Notification where
  "rec_x2 = \<lparr> id_field = ''x2'', createdTime = 86400000, isSeen = False,
      sourceType = None, sourceContractId = Some ''m1'' \<rparr>"

definition group_x1 :: NotificationGroup where
  "group_x1 = \<lparr> notifications = [rec_x1], groupedById = ''m1'',
      isSeen = True, timePeriod = ''Thu Jan 01 1970'', type = Normal \<rparr>"

definition group_x2 :: NotificationGroup where
  "group_x2 = \<lparr> notifications = [rec_x2], groupedById = ''m1'',
      isSeen = True, timePeriod = ''Fri Jan 02 1970'', type = Normal \<rparr>"

text \<open>A record whose contract id is the string \<^verbatim>\<open>"undefined"\<close>, and one without contract id.\<close>

definition rec_u1 :: Notification where
  "rec_u1 = \<lparr> id_field = ''u1'', createdTime = 0, isSeen = True,
      sourceType = None, sourceContractId = Some ''undefined'' \<rparr>"

definition rec_u2 :: Notification where
  "rec_u2 = \<lparr> id_field = ''u2'', createdTime = 1, isSeen = True,
      sourceType = None, sourceContractId = None \<rparr>"

definition group_u :: NotificationGroup where
  "group_u = \<lparr> notifications = [rec_u2, rec_u1], groupedById = ''undefined'',
      isSeen = False, timePeriod = ''Thu Jan 01 1970'', type = Normal \<rparr>"

text \<open>Two contracts whose ids are array indices, the larger one first.\<close>

definition rec_k2 :: Notification where
  "rec_k2 = \<lparr> id_field = ''k2'', createdTime = 0, isSeen = True,
      sourceType = None, sourceContractId = Some ''2'' \<rparr>"

definition rec_k1 :: Notification where
  "rec_k1 = \<lparr> id_field = ''k1'', createdTime = 1, isSeen = True,
      sourceType = None, sourceContractId = Some ''1'' \<rparr>"

definition group_k1 :: NotificationGroup where
  "group_k1 = \<lparr> notifications = [rec_k1], groupedById = ''1'',
      isSeen = False, timePeriod = ''Thu Jan 01 1970'', type = Normal \<rparr>"

definition group_k2 :: NotificationGroup where
  "group_k2 = \<lparr> notifications = [rec_k2], groupedById = ''2'',
      isSeen = False, timePeriod = ''Thu Jan 01 1970'', type = Normal \<rparr>"

section \<open>Properties of the library operations\<close>

subsection \<open>groupBy and the key order\<close>

lemma set_firstSeen [simp]: "set (firstSeen ks) = set ks"
  by (induction ks) auto

lemma distinct_firstSeen [simp]: "distinct (firstSeen ks)"
  by (induction ks) auto

lemma firstSeen_snoc:
  "firstSeen (ks @ [k]) = (if k \<in> set ks then firstSeen ks else firstSeen ks @ [k])"
  by (induction ks) auto

lemma groupBy_snoc:
  "groupBy (xs @ [x]) f = groupBySetter (groupBy xs f) x (f x)"
  by (simp add: groupBy_def)

lemma groupBy_eq:
  "groupBy xs f = map (\<lambda>k. (k, filter (\<lambda>x. f x = k) xs)) (firstSeen (map f xs))"
proof (induction xs rule: rev_induct)
  case Nil
  show ?case by (simp add: groupBy_def)
next
  case (snoc x xs)
  let ?ks = "firstSeen (map f xs)"
  have own: "hasOwnProperty (groupBy xs f) (f x) \<longleftrightarrow> f x \<in> f ` set xs"
    by (simp add: snoc.IH hasOwnProperty_def comp_def)
  show ?case
  proof (cases "f x \<in> f ` set xs")
    case True
    then have "groupBy (xs @ [x]) f =
        map (\<lambda>(k, vs). if k = f x then (k, vs @ [x]) else (k, vs)) (groupBy xs f)"
      using own by (simp add: groupBy_snoc groupBySetter_def)
    then show ?thesis
      using True by (simp add: snoc.IH firstSeen_snoc)
  next
    case False
    have fresh: "f y \<noteq> f x" "f x \<noteq> f y" if "y \<in> set xs" for y
      using False that by (metis imageI)+
    have new: "filter (\<lambda>y. f y = f x) (xs @ [x]) = [x]"
      by (simp add: filter_empty_conv fresh)
    have old: "map (\<lambda>k. (k, filter (\<lambda>y. f y = k) (xs @ [x]))) ?ks =
        map (\<lambda>k. (k, filter (\<lambda>y. f y = k) xs)) ?ks"
      using fresh by auto
    have "groupBy (xs @ [x]) f = groupBy xs f @ [(f x, [x])]"
      using False own by (simp add: groupBy_snoc groupBySetter_def)
    moreover have "firstSeen (map f (xs @ [x])) = ?ks @ [f x]"
      using False by (simp add: firstSeen_snoc)
    ultimately show ?thesis
      by (simp only: snoc.IH map_append list.map new old)
  qed
qed

lemma set_ownPropertyKeys [simp]: "set (ownPropertyKeys ks) = set ks"
  by (auto simp: ownPropertyKeys_def)

lemma mset_ownPropertyKeys [simp]: "mset (ownPropertyKeys ks) = mset ks"
  by (simp add: ownPropertyKeys_def)

lemma distinct_ownPropertyKeys [simp]: "distinct (ownPropertyKeys ks) = distinct ks"
  by (rule mset_eq_imp_distinct_iff) simp

lemma ownPropertyKeys_plain:
  "\<forall>k \<in> set ks. \<not> isArrayIndex k \<Longrightarrow> ownPropertyKeys ks = ks"
  by (simp add: ownPropertyKeys_def filter_empty_conv[THEN iffD2])

lemma map_of_tabulate:
  "map_of (map (\<lambda>k. (k, g k)) ks) k = (if k \<in> set ks then Some (g k) else None)"
  by (induction ks) auto

lemma objectKeys_groupBy:
  "objectKeys (groupBy xs f) = ownPropertyKeys (firstSeen (map f xs))"
  by (simp add: objectKeys_def groupBy_eq comp_def)

lemma getProp_groupBy:
  "k \<in> f ` set xs \<Longrightarrow> getProp (groupBy xs f) k = Some (filter (\<lambda>x. f x = k) xs)"
  by (simp add: getProp_def groupBy_eq map_of_tabulate)


subsection \<open>Fallible iteration and the sort\<close>

lemma mapE_Inr:
  "(\<And>k. k \<in> set ks \<Longrightarrow> f k = Inr (g k)) \<Longrightarrow> mapE f ks = Inr (map g ks)"
  by (induction ks) auto

lemma forEach_append:
  "(\<And>k s. k \<in> set ks \<Longrightarrow> body k s = Inr (s @ h k)) \<Longrightarrow>
     forEach ks body s = Inr (s @ concat (map h ks))"
  by (induction ks arbitrary: s) auto

lemma insert_js_insort:
  "insert_js compareCreatedTime x ys = insort_key (\<lambda>n. - createdTime n) x ys"
  by (induction ys) (auto simp: compareCreatedTime_def)

lemma sort_js_sort_key:
  "sort_js compareCreatedTime xs = sort_key (\<lambda>n. - createdTime n) xs"
  by (induction xs) (auto simp: sort_js_def insert_js_insort)

section \<open>The closed form of groupNotifications\<close>

lemma notificationGroup_Inr:
  "key \<in> contractKey ` set normals \<Longrightarrow>
     notificationGroup day (groupBy normals contractKey) arg key = Inr (normalGroup day normals key)"
  by (simp add: notificationGroup_def getProp_groupBy normalGroup_def Let_def)

lemma map_lodash_groupBy:
  "map_lodash (groupBy normals contractKey) (notificationGroup day (groupBy normals contractKey))
     = Inr (normalGroups day normals)"
  unfolding map_lodash_def normalGroups_def objectKeys_groupBy
  by (rule mapE_Inr) (simp add: notificationGroup_Inr)

lemma dayBody_eq:
  "day \<in> f ` set ns \<Longrightarrow>
     dayBody (groupBy ns f) day s = Inr (s @ dayGroups day (filter (\<lambda>n. f n = day) ns))"
  by (simp add: dayBody_def getProp_groupBy partition_lodash_def map_lodash_groupBy
        dayGroups_def incomeGroups_def split: list.splits)

text \<open>A day label starts with the name of a week day, or is \<^verbatim>\<open>Invalid Date\<close>: it is never an array index.\<close>

lemma hd_weekDayName: "weekDayName w \<noteq> [] \<and> \<not> isDigit (hd (weekDayName w))"
  by (simp add: weekDayName_def isDigit_def)

lemma isArrayIndex_hd: "isArrayIndex s \<Longrightarrow> isDigit (hd s)"
  by (cases s) (auto simp: isArrayIndex_def)

lemma toDateString_not_index: "\<not> isArrayIndex (toDateString localTZA t)"
proof
  assume "isArrayIndex (toDateString localTZA t)"
  then have "isDigit (hd (toDateString localTZA t))" by (rule isArrayIndex_hd)
  then show False
    using hd_weekDayName
    by (auto simp: toDateString_def DateString_def Let_def isDigit_def split: if_splits)
qed

lemma objectKeys_days:
  "objectKeys (groupBy ns (dayOf localTZA)) = firstSeen (map (dayOf localTZA) ns)"
  unfolding objectKeys_groupBy
  by (rule ownPropertyKeys_plain) (auto simp: dayOf_def toDateString_not_index)

lemma groupNotifications_eq:
  "groupNotifications localTZA ns =
     Inr (concat (map (\<lambda>day. dayGroups day (filter (\<lambda>n. dayOf localTZA n = day) ns))
                      (firstSeen (map (dayOf localTZA) ns))))"
proof -
  have "groupNotifications localTZA ns =
      forEach (objectKeys (groupBy ns (dayOf localTZA))) (dayBody (groupBy ns (dayOf localTZA))) []"
    by (simp add: groupNotifications_def dayOf_def[abs_def] Let_def)
  also have "\<dots> = Inr ([] @ concat (map (\<lambda>day. dayGroups day (filter (\<lambda>n. dayOf localTZA n = day) ns))
                      (firstSeen (map (dayOf localTZA) ns))))"
    unfolding objectKeys_days
    by (rule forEach_append) (simp add: dayBody_eq)
  finally show ?thesis by simp
qed


subsection \<open>The groups of the result, one by one\<close>

lemma notifications_normalGroup:
  "notifications (normalGroup day normals key) =
     sort_key (\<lambda>n. - createdTime n) (filter (\<lambda>n. contractKey n = key) normals)"
  by (simp add: normalGroup_def Let_def sort_js_sort_key)

lemma normalGroup_sel [simp]:
  "groupedById (normalGroup day normals key) = key"
  "timePeriod (normalGroup day normals key) = day"
  "type (normalGroup day normals key) = Normal"
  "NotificationGroup.isSeen (normalGroup day normals key) =
     (\<exists>m \<in> set (notifications (normalGroup day normals key)). \<not> Notification.isSeen m)"
  by (simp_all add: normalGroup_def Let_def list_ex_iff)

lemma in_incomeGroups:
  "g \<in> set (incomeGroups day members) \<longleftrightarrow>
     (\<exists>first rest. members = first # rest \<and>
        g = \<lparr> notifications = members, groupedById = ''income'' @ day,
              isSeen = Notification.isSeen first, timePeriod = day, type = Income \<rparr>)"
  by (auto simp: incomeGroups_def split: list.splits)

lemma in_normalGroups:
  "g \<in> set (normalGroups day normals) \<longleftrightarrow>
     (\<exists>key \<in> contractKey ` set normals. g = normalGroup day normals key)"
  by (auto simp: normalGroups_def)

lemma in_groups_cases:
  assumes "groupNotifications localTZA ns = Inr groups" and "g \<in> set groups"
  obtains
    (income) day first rest where
      "filter (\<lambda>n. dayOf localTZA n = day \<and> isIncome n) ns = first # rest"
      "g = \<lparr> notifications = first # rest, groupedById = ''income'' @ day,
             isSeen = Notification.isSeen first, timePeriod = day, type = Income \<rparr>"
  | (normal) day key n where
      "n \<in> set ns" "dayOf localTZA n = day" "\<not> isIncome n" "contractKey n = key"
      "g = normalGroup day (filter (\<lambda>n. dayOf localTZA n = day \<and> \<not> isIncome n) ns) key"
proof -
  from assms have "g \<in> set (concat (map (\<lambda>day. dayGroups day (filter (\<lambda>n. dayOf localTZA n = day) ns))
                      (firstSeen (map (dayOf localTZA) ns))))"
    by (simp add: groupNotifications_eq)
  then obtain day where
    g: "g \<in> set (dayGroups day (filter (\<lambda>n. dayOf localTZA n = day) ns))"
    by auto
  then consider
      "g \<in> set (incomeGroups day (filter (\<lambda>n. dayOf localTZA n = day \<and> isIncome n) ns))"
    | "g \<in> set (normalGroups day (filter (\<lambda>n. dayOf localTZA n = day \<and> \<not> isIncome n) ns))"
    by (auto simp: dayGroups_def)
  then show thesis
  proof cases
    case 1
    then obtain first rest where
      "filter (\<lambda>n. dayOf localTZA n = day \<and> isIncome n) ns = first # rest"
      "g = \<lparr> notifications = filter (\<lambda>n. dayOf localTZA n = day \<and> isIncome n) ns,
             groupedById = ''income'' @ day,
             isSeen = Notification.isSeen first, timePeriod = day, type = Income \<rparr>"
      unfolding in_incomeGroups by blast
    then show thesis
      using income[of day first rest] by simp
  next
    case 2
    then obtain key where
      "key \<in> contractKey ` set (filter (\<lambda>n. dayOf localTZA n = day \<and> \<not> isIncome n) ns)"
      "g = normalGroup day (filter (\<lambda>n. dayOf localTZA n = day \<and> \<not> isIncome n) ns) key"
      unfolding in_normalGroups by blast
    then show thesis
      using normal[of _ day key] by auto
  qed
qed

lemma isIncome_iff:
  "isIncome n \<longleftrightarrow> sourceType n \<in> {Some ''bonus'', Some ''tip'', Some ''loan'',
      Some ''betting_streak_bonus'', Some ''tip_and_like''}"
  by (cases "sourceType n") (auto simp: isIncome_def incomeSourceTypes_def)


lemma set_notifications_normalGroup:
  "set (notifications (normalGroup day normals key)) = {n \<in> set normals. contractKey n = key}"
  by (auto simp: notifications_normalGroup)

lemma sorted_desc_sort_key:
  "sorted_wrt (\<lambda>a b. createdTime b \<le> createdTime a) (sort_key (\<lambda>n. - createdTime n) xs)"
proof -
  have "sorted (map (\<lambda>n. - createdTime n) (sort_key (\<lambda>n. - createdTime n) xs))"
    by (rule sorted_sort_key)
  then show ?thesis
    by (simp add: sorted_map)
qed

lemma sort_key_stable_time:
  "filter (\<lambda>m. createdTime m = t) (sort_key (\<lambda>n. - createdTime n) xs)
     = filter (\<lambda>m. createdTime m = t) xs"
proof -
  have "filter (\<lambda>m. - createdTime m = - t) (sort_key (\<lambda>n. - createdTime n) xs)
     = filter (\<lambda>m. - createdTime m = - t) xs"
    by (rule sort_key_stable)
  then show ?thesis by simp
qed

subsection \<open>The groups of one day\<close>

lemma concat_map_single:
  "distinct ks \<Longrightarrow> k0 \<in> set ks \<Longrightarrow> (\<And>k. k \<in> set ks \<Longrightarrow> k \<noteq> k0 \<Longrightarrow> G k = [])
     \<Longrightarrow> concat (map G ks) = G k0"
proof (induction ks)
  case Nil
  then show ?case by simp
next
  case (Cons k ks)
  show ?case
  proof (cases "k = k0")
    case True
    then have "\<forall>k' \<in> set ks. G k' = []"
      using Cons.prems by auto
    then have "concat (map G ks) = []" by simp
    with True show ?thesis by simp
  next
    case False
    then show ?thesis
      using Cons by auto
  qed
qed

lemma concat_map_none:
  "(\<And>k. k \<in> set ks \<Longrightarrow> G k = []) \<Longrightarrow> concat (map G ks) = []"
  by simp

lemma timePeriod_dayGroups:
  "g \<in> set (dayGroups day xs) \<Longrightarrow> timePeriod g = day"
  by (auto simp: dayGroups_def in_incomeGroups in_normalGroups)

lemma filter_timePeriod_dayGroups:
  "filter (\<lambda>g. timePeriod g = day) (dayGroups day' xs) = (if day' = day then dayGroups day' xs else [])"
  by (auto simp: filter_empty_conv timePeriod_dayGroups filter_id_conv)

lemma groups_of_day:
  assumes "groupNotifications localTZA ns = Inr groups"
  shows "filter (\<lambda>g. timePeriod g = day) groups =
     (if day \<in> dayOf localTZA ` set ns
      then dayGroups day (filter (\<lambda>n. dayOf localTZA n = day) ns) else [])"
proof -
  let ?D = "\<lambda>day. dayGroups day (filter (\<lambda>n. dayOf localTZA n = day) ns)"
  let ?days = "firstSeen (map (dayOf localTZA) ns)"
  have "filter (\<lambda>g. timePeriod g = day) groups
      = concat (map (\<lambda>day'. filter (\<lambda>g. timePeriod g = day) (?D day')) ?days)"
    using assms by (auto simp: groupNotifications_eq filter_concat comp_def)
  also have "\<dots> = concat (map (\<lambda>day'. if day' = day then ?D day' else []) ?days)"
    by (simp only: filter_timePeriod_dayGroups)
  also have "\<dots> = (if day \<in> dayOf localTZA ` set ns then ?D day else [])"
  proof (cases "day \<in> dayOf localTZA ` set ns")
    case True
    then have "concat (map (\<lambda>day'. if day' = day then ?D day' else []) ?days)
        = (if day = day then ?D day else [])"
      by (intro concat_map_single) auto
    with True show ?thesis by simp
  next
    case False
    then have "concat (map (\<lambda>day'. if day' = day then ?D day' else []) ?days) = []"
      by (intro concat_map_none) auto
    with False show ?thesis by simp
  qed
  finally show ?thesis .
qed

lemma type_incomeGroups: "g \<in> set (incomeGroups day xs) \<Longrightarrow> type g = Income"
  by (auto simp: in_incomeGroups)

lemma type_normalGroups: "g \<in> set (normalGroups day xs) \<Longrightarrow> type g = Normal"
  by (auto simp: in_normalGroups)

lemma filter_Income_dayGroups:
  "filter (\<lambda>g. type g = Income) (dayGroups day xs) = incomeGroups day (filter isIncome xs)"
proof -
  have "filter (\<lambda>g. type g = Income) (incomeGroups day (filter isIncome xs))
      = incomeGroups day (filter isIncome xs)"
    by (simp add: filter_id_conv type_incomeGroups)
  moreover have "filter (\<lambda>g. type g = Income) (normalGroups day (filter (\<lambda>n. \<not> isIncome n) xs)) = []"
    by (auto simp: filter_empty_conv dest: type_normalGroups)
  ultimately show ?thesis
    by (simp add: dayGroups_def)
qed

lemma filter_Normal_dayGroups:
  "filter (\<lambda>g. type g = Normal) (dayGroups day xs) = normalGroups day (filter (\<lambda>n. \<not> isIncome n) xs)"
proof -
  have "filter (\<lambda>g. type g = Normal) (incomeGroups day (filter isIncome xs)) = []"
    by (auto simp: filter_empty_conv dest: type_incomeGroups)
  moreover have "filter (\<lambda>g. type g = Normal) (normalGroups day (filter (\<lambda>n. \<not> isIncome n) xs))
      = normalGroups day (filter (\<lambda>n. \<not> isIncome n) xs)"
    by (simp add: filter_id_conv type_normalGroups)
  ultimately show ?thesis
    by (simp add: dayGroups_def)
qed

lemma filter_eq_single:
  "distinct ks \<Longrightarrow> k \<in> set ks \<Longrightarrow> filter (\<lambda>x. x = k) ks = [k]"
  by (induction ks) (auto simp: filter_empty_conv)

lemma filter_key_normalGroups:
  "key \<in> contractKey ` set normals \<Longrightarrow>
     filter (\<lambda>g. groupedById g = key) (normalGroups day normals) = [normalGroup day normals key]"
proof -
  let ?ks = "ownPropertyKeys (firstSeen (map contractKey normals))"
  assume "key \<in> contractKey ` set normals"
  then have "filter (\<lambda>k. k = key) ?ks = [key]"
    by (intro filter_eq_single) auto
  then show ?thesis
    by (simp add: normalGroups_def filter_map comp_def)
qed

subsection \<open>Day, type and key of the groups, in order\<close>

lemma distinct_concat_tagged:
  "distinct ks \<Longrightarrow> (\<And>k. k \<in> set ks \<Longrightarrow> distinct (F k))
     \<Longrightarrow> (\<And>k y. k \<in> set ks \<Longrightarrow> y \<in> set (F k) \<Longrightarrow> tag y = k)
     \<Longrightarrow> distinct (concat (map F ks))"
proof (induction ks)
  case Nil
  then show ?case by simp
next
  case (Cons k ks)
  have "set (F k) \<inter> set (concat (map F ks)) = {}"
  proof (rule ccontr)
    assume "set (F k) \<inter> set (concat (map F ks)) \<noteq> {}"
    then obtain y k' where "y \<in> set (F k)" "k' \<in> set ks" "y \<in> set (F k')"
      by auto
    then have "tag y = k" "tag y = k'"
      using Cons.prems(3) by auto
    with \<open>k' \<in> set ks\<close> Cons.prems(1) show False by auto
  qed
  moreover have "distinct (concat (map F ks))"
    using Cons by auto
  ultimately show ?case
    using Cons.prems(2) by simp
qed

lemma map_groupTag_dayGroups:
  "map groupTag (dayGroups day xs) =
     (if \<exists>n \<in> set xs. isIncome n then [(day, Income, ''income'' @ day)] else [])
     @ map (\<lambda>k. (day, Normal, k))
         (ownPropertyKeys (firstSeen (map contractKey (filter (\<lambda>n. \<not> isIncome n) xs))))"
proof -
  have "map groupTag (incomeGroups day (filter isIncome xs))
      = (if \<exists>n \<in> set xs. isIncome n then [(day, Income, ''income'' @ day)] else [])"
    by (auto simp: incomeGroups_def groupTag_def filter_empty_conv split: list.splits)
  moreover have "map groupTag (normalGroups day ys)
      = map (\<lambda>k. (day, Normal, k)) (ownPropertyKeys (firstSeen (map contractKey ys)))" for ys
    by (simp add: normalGroups_def groupTag_def)
  ultimately show ?thesis
    by (simp add: dayGroups_def)
qed

lemma distinct_groupTag_dayGroups: "distinct (map groupTag (dayGroups day xs))"
  by (auto simp: map_groupTag_dayGroups distinct_map inj_on_def)

section \<open>Evaluation of the example feeds\<close>

lemma civilFromDays_0: "civilFromDays 0 = (1970, 0, 1)"
  by code_simp

lemma civilFromDays_1: "civilFromDays 1 = (1970, 0, 2)"
  by code_simp

lemma decimalString_evals:
  "decimalString (Suc 0) = ''1''" "decimalString 2 = ''2''" "decimalString 1970 = ''1970''"
  by (simp_all add: decimalString.simps digitChar_def)

lemma toDateString_first_day:
  assumes "0 \<le> t" and "t < 86400000"
  shows "toDateString (\<lambda>_. 0) t = ''Thu Jan 01 1970''"
proof -
  have "Day t = 0"
    using assms by (simp add: Day_def msPerDay_def)
  then show ?thesis
    using assms
    by (simp add: toDateString_def DateString_def YearFromTime_def MonthFromTime_def
          DateFromTime_def WeekDay_def civilFromDays_0 weekDayName_def monthName_def
          ToZeroPaddedDecimalString_def decimalString_evals)
qed

lemma toDateString_second_day:
  "toDateString (\<lambda>_. 0) 86400000 = ''Fri Jan 02 1970''"
proof -
  have "Day 86400000 = 1"
    by (simp add: Day_def msPerDay_def)
  then show ?thesis
    by (simp add: toDateString_def DateString_def YearFromTime_def MonthFromTime_def
          DateFromTime_def WeekDay_def civilFromDays_1 weekDayName_def monthName_def
          ToZeroPaddedDecimalString_def decimalString_evals)
qed

lemma exampleFeed_days:
  "dayOf (\<lambda>_. 0) rec_a = ''Thu Jan 01 1970''" "dayOf (\<lambda>_. 0) rec_b = ''Thu Jan 01 1970''"
  "dayOf (\<lambda>_. 0) rec_c = ''Thu Jan 01 1970''" "dayOf (\<lambda>_. 0) rec_d = ''Thu Jan 01 1970''"
  "dayOf (\<lambda>_. 0) rec_e = ''Fri Jan 02 1970''" "dayOf (\<lambda>_. 0) rec_f = ''Thu Jan 01 1970''"
  by (simp_all add: dayOf_def rec_a_def rec_b_def rec_c_def rec_d_def rec_e_def rec_f_def
        toDateString_first_day toDateString_second_day)

lemma exampleFeed_income:
  "\<not> isIncome rec_a" "isIncome rec_b" "\<not> isIncome rec_c" "\<not> isIncome rec_d"
  "\<not> isIncome rec_e" "isIncome rec_f"
  by (simp_all add: isIncome_def incomeSourceTypes_def
        rec_a_def rec_b_def rec_c_def rec_d_def rec_e_def rec_f_def)

lemma exampleFeed_keys:
  "contractKey rec_a = ''m1''" "contractKey rec_c = ''m1''" "contractKey rec_d = ''m1''"
  "contractKey rec_e = ''undefined''"
  by (simp_all add: contractKey_def rec_a_def rec_c_def rec_d_def rec_e_def)

lemma exampleFeed_fields:
  "createdTime rec_a = 100" "createdTime rec_c = 300" "createdTime rec_d = 100"
  "Notification.isSeen rec_a" "\<not> Notification.isSeen rec_b" "\<not> Notification.isSeen rec_c"
  "Notification.isSeen rec_d" "Notification.isSeen rec_e"
  by (simp_all add: rec_a_def rec_b_def rec_c_def rec_d_def rec_e_def)

lemma not_index_evals: "\<not> isArrayIndex ''m1''" "\<not> isArrayIndex ''undefined''"
  by (simp_all add: isArrayIndex_def isDigit_def)

lemma index_evals:
  "isArrayIndex ''1''" "isArrayIndex ''2''" "decimalValue ''1'' = 1" "decimalValue ''2'' = 2"
  by (simp_all add: isArrayIndex_def isDigit_def decimalValue_def digitValue_def)

lemmas closed_form_eval =
  groupNotifications_eq dayGroups_def incomeGroups_def normalGroups_def
  normalGroup_def ownPropertyKeys_def sort_js_def compareCreatedTime_def

lemma exampleFeed_groups: "groupNotifications (\<lambda>_. 0) exampleFeed = Inr exampleGroups"
  by (simp add: closed_form_eval exampleFeed_def exampleGroups_def group_income_def
        group_m1_def group_undefined_def exampleFeed_days exampleFeed_income exampleFeed_keys
        exampleFeed_fields not_index_evals)

lemma other_days:
  "dayOf (\<lambda>_. 0) rec_x1 = ''Thu Jan 01 1970''" "dayOf (\<lambda>_. 0) rec_x2 = ''Fri Jan 02 1970''"
  "dayOf (\<lambda>_. 0) rec_u1 = ''Thu Jan 01 1970''" "dayOf (\<lambda>_. 0) rec_u2 = ''Thu Jan 01 1970''"
  "dayOf (\<lambda>_. 0) rec_k1 = ''Thu Jan 01 1970''" "dayOf (\<lambda>_. 0) rec_k2 = ''Thu Jan 01 1970''"
  by (simp_all add: dayOf_def rec_x1_def rec_x2_def rec_u1_def rec_u2_def rec_k1_def rec_k2_def
        toDateString_first_day toDateString_second_day)

lemma other_income:
  "\<not> isIncome rec_x1" "\<not> isIncome rec_x2" "\<not> isIncome rec_u1" "\<not> isIncome rec_u2"
  "\<not> isIncome rec_k1" "\<not> isIncome rec_k2"
  by (simp_all add: isIncome_def incomeSourceTypes_def
        rec_x1_def rec_x2_def rec_u1_def rec_u2_def rec_k1_def rec_k2_def)

lemma other_keys:
  "contractKey rec_x1 = ''m1''" "contractKey rec_x2 = ''m1''"
  "contractKey rec_u1 = ''undefined''" "contractKey rec_u2 = ''undefined''"
  "contractKey rec_k1 = ''1''" "contractKey rec_k2 = ''2''"
  by (simp_all add: contractKey_def rec_x1_def rec_x2_def rec_u1_def rec_u2_def rec_k1_def rec_k2_def)

lemma other_fields:
  "\<not> Notification.isSeen rec_x1" "\<not> Notification.isSeen rec_x2"
  "Notification.isSeen rec_u1" "Notification.isSeen rec_u2"
  "Notification.isSeen rec_k1" "Notification.isSeen rec_k2"
  "createdTime rec_u1 = 0" "createdTime rec_u2 = 1"
  by (simp_all add: rec_x1_def rec_x2_def rec_u1_def rec_u2_def rec_k1_def rec_k2_def)

lemma twoDays_groups: "groupNotifications (\<lambda>_. 0) [rec_x1, rec_x2] = Inr [group_x1, group_x2]"
  by (simp add: closed_form_eval group_x1_def group_x2_def other_days other_income other_keys
        other_fields not_index_evals)

lemma noContract_groups: "groupNotifications (\<lambda>_. 0) [rec_e] = Inr [group_undefined]"
  by (simp add: closed_form_eval group_undefined_def exampleFeed_days exampleFeed_income
        exampleFeed_keys exampleFeed_fields not_index_evals)

lemma undefinedId_groups: "groupNotifications (\<lambda>_. 0) [rec_u1, rec_u2] = Inr [group_u]"
  by (simp add: closed_form_eval group_u_def other_days other_income other_keys
        other_fields not_index_evals)

lemma indexIds_groups: "groupNotifications (\<lambda>_. 0) [rec_k2, rec_k1] = Inr [group_k1, group_k2]"
  by (simp add: closed_form_eval group_k1_def group_k2_def other_days other_income other_keys
        other_fields index_evals)

section \<open>The claims\<close>

subsection \<open>Partition property\<close>

lemma mset_pick_none:
  "k0 \<notin> set ks \<Longrightarrow> (\<Sum>k\<leftarrow>ks. if k0 = k then A else ({#} :: 'a multiset)) = {#}"
  by (induction ks) auto

lemma mset_pick:
  "distinct ks \<Longrightarrow> k0 \<in> set ks \<Longrightarrow>
     (\<Sum>k\<leftarrow>ks. if k0 = k then A else ({#} :: 'a multiset)) = A"
  by (induction ks) (auto simp: mset_pick_none)

lemma mset_classes:
  "distinct ks \<Longrightarrow> f ` set xs \<subseteq> set ks \<Longrightarrow>
     (\<Sum>k\<leftarrow>ks. mset (filter (\<lambda>x. f x = k) xs)) = mset xs"
proof (induction xs)
  case Nil
  then show ?case by simp
next
  case (Cons x xs)
  have "(\<Sum>k\<leftarrow>ks. mset (filter (\<lambda>y. f y = k) (x # xs)))
      = (\<Sum>k\<leftarrow>ks. (if f x = k then {#x#} else {#}) + mset (filter (\<lambda>y. f y = k) xs))"
    by (rule arg_cong[where f = sum_list]) auto
  also have "\<dots> = (\<Sum>k\<leftarrow>ks. if f x = k then {#x#} else {#})
      + (\<Sum>k\<leftarrow>ks. mset (filter (\<lambda>y. f y = k) xs))"
    by (simp add: sum_list_addf)
  also have "\<dots> = {#x#} + mset xs"
    using Cons by (simp add: mset_pick)
  finally show ?case by simp
qed

lemma mset_members_normalGroups:
  "(\<Sum>g\<leftarrow>normalGroups day normals. mset (notifications g)) = mset normals"
proof -
  have "(\<Sum>g\<leftarrow>normalGroups day normals. mset (notifications g))
      = (\<Sum>k\<leftarrow>ownPropertyKeys (firstSeen (map contractKey normals)).
           mset (filter (\<lambda>n. contractKey n = k) normals))"
    by (simp add: normalGroups_def comp_def normalGroup_def Let_def sort_js_sort_key)
  also have "\<dots> = mset normals"
    by (rule mset_classes) auto
  finally show ?thesis .
qed

lemma mset_members_incomeGroups:
  "(\<Sum>g\<leftarrow>incomeGroups day members. mset (notifications g)) = mset members"
  by (simp add: incomeGroups_def split: list.splits)

lemma mset_members_dayGroups:
  "(\<Sum>g\<leftarrow>dayGroups day ns. mset (notifications g)) = mset ns"
  by (simp add: dayGroups_def mset_members_normalGroups mset_members_incomeGroups)

lemma sum_list_concat_map:
  "(\<Sum>g\<leftarrow>concat (map F ks). (h g :: 'a multiset)) = (\<Sum>k\<leftarrow>ks. \<Sum>g\<leftarrow>F k. h g)"
  by (induction ks) auto

lemma mset_members_result:
  "groupNotifications localTZA ns = Inr groups \<Longrightarrow>
     (\<Sum>g\<leftarrow>groups. mset (notifications g)) = mset ns"
proof -
  let ?days = "firstSeen (map (dayOf localTZA) ns)"
  have "(\<Sum>g\<leftarrow>concat (map (\<lambda>day. dayGroups day (filter (\<lambda>n. dayOf localTZA n = day) ns)) ?days).
          mset (notifications g))
      = (\<Sum>day\<leftarrow>?days. mset (filter (\<lambda>n. dayOf localTZA n = day) ns))"
    by (simp add: sum_list_concat_map mset_members_dayGroups)
  also have "\<dots> = mset ns"
    by (rule mset_classes) auto
  finally show "groupNotifications localTZA ns = Inr groups \<Longrightarrow>
     (\<Sum>g\<leftarrow>groups. mset (notifications g)) = mset ns"
    by (auto simp: groupNotifications_eq)
qed

lemma groupNotifications_returns:
  "\<exists>groups. groupNotifications localTZA ns = Inr groups"
  by (simp add: groupNotifications_eq)

text \<open>
  C1. For every finite input sequence, groupNotifications returns, and the multiset
  union of the members of all returned groups is the multiset of the input: no record
  is dropped and none appears twice.
\<close>

theorem partition_property:
  "\<exists>groups. groupNotifications localTZA ns = Inr groups
     \<and> (\<Sum>g\<leftarrow>groups. mset (notifications g)) = mset ns"
  using groupNotifications_returns[of localTZA ns] mset_members_result[of localTZA ns]
  by blast

subsection \<open>Unseen rollup\<close>

text \<open>
  C5. For every input and every normal group of the result, the group's \<open>isSeen\<close> flag
  is true if and only if at least one member of the group has \<open>isSeen\<close> false.
\<close>

theorem unseen_rollup:
  assumes "groupNotifications localTZA ns = Inr groups"
    and "g \<in> set groups" and "type g = Normal"
  shows "NotificationGroup.isSeen g \<longleftrightarrow> (\<exists>m \<in> set (notifications g). \<not> Notification.isSeen m)"
  using assms(1,2)
proof (cases rule: in_groups_cases)
  case (income day first rest)
  with assms(3) show ?thesis by simp
next
  case (normal day key n)
  then show ?thesis by simp
qed

text \<open>An instance, on the example feed.\<close>

theorem unseen_rollup_witness:
  "groupNotifications (\<lambda>_. 0) exampleFeed = Inr exampleGroups
     \<and> group_m1 \<in> set exampleGroups \<and> type group_m1 = Normal
     \<and> (NotificationGroup.isSeen group_m1
          \<longleftrightarrow> (\<exists>m \<in> set (notifications group_m1). \<not> Notification.isSeen m))"
proof -
  have g: "group_m1 \<in> set exampleGroups" by (simp add: exampleGroups_def)
  have t: "type group_m1 = Normal" by (simp add: group_m1_def)
  from unseen_rollup[OF exampleFeed_groups g t] exampleFeed_groups g t
  show ?thesis by simp
qed

subsection \<open>No empty group\<close>

text \<open>
  C10. For every input, every group of the result has at least one member.
\<close>

theorem groups_nonempty:
  assumes "groupNotifications localTZA ns = Inr groups" and "g \<in> set groups"
  shows "notifications g \<noteq> []"
  using assms
proof (cases rule: in_groups_cases)
  case (income day first rest)
  then show ?thesis by simp
next
  case (normal day key n)
  then have "n \<in> set (notifications g)"
    by (simp add: notifications_normalGroup)
  then show ?thesis by auto
qed

text \<open>An instance, on the example feed.\<close>

theorem groups_nonempty_witness:
  "groupNotifications (\<lambda>_. 0) exampleFeed = Inr exampleGroups
     \<and> group_undefined \<in> set exampleGroups \<and> notifications group_undefined \<noteq> []"
proof -
  have g: "group_undefined \<in> set exampleGroups" by (simp add: exampleGroups_def)
  from groups_nonempty[OF exampleFeed_groups g] exampleFeed_groups g
  show ?thesis by simp
qed

subsection \<open>Sort order inside a normal group\<close>

text \<open>
  C6. For every input and every normal group of the result (with one member or more),
  \<open>createdTime\<close> is non-increasing along the members, and the members with one and
  the same \<open>createdTime\<close> stand in the order they have in the input.
\<close>

theorem normal_group_sorted_stable:
  assumes "groupNotifications localTZA ns = Inr groups"
    and "g \<in> set groups" and "type g = Normal"
  shows "sorted_wrt (\<lambda>a b. createdTime b \<le> createdTime a) (notifications g)
     \<and> filter (\<lambda>m. createdTime m = t) (notifications g)
         = filter (\<lambda>m. createdTime m = t \<and> m \<in> set (notifications g)) ns"
  using assms(1,2)
proof (cases rule: in_groups_cases)
  case (income day first rest)
  with assms(3) show ?thesis by simp
next
  case (normal day key n)
  let ?normals = "filter (\<lambda>n. dayOf localTZA n = day \<and> \<not> isIncome n) ns"
  have members: "notifications g
      = sort_key (\<lambda>n. - createdTime n) (filter (\<lambda>n. contractKey n = key) ?normals)"
    using normal(5) by (simp add: notifications_normalGroup)
  have "filter (\<lambda>m. createdTime m = t) (notifications g)
      = filter (\<lambda>m. createdTime m = t) (filter (\<lambda>n. contractKey n = key) ?normals)"
    unfolding members by (rule sort_key_stable_time)
  also have "\<dots> = filter (\<lambda>m. createdTime m = t \<and> m \<in> set (notifications g)) ns"
    unfolding members by (auto intro: filter_cong)
  finally show ?thesis
    by (simp add: members sorted_desc_sort_key)
qed

text \<open>An instance, on the example feed.\<close>

theorem normal_group_sorted_stable_witness:
  "groupNotifications (\<lambda>_. 0) exampleFeed = Inr exampleGroups
     \<and> group_m1 \<in> set exampleGroups \<and> type group_m1 = Normal
     \<and> notifications group_m1 = [rec_c, rec_a, rec_d]
     \<and> sorted_wrt (\<lambda>a b. createdTime b \<le> createdTime a) (notifications group_m1)
     \<and> filter (\<lambda>m. createdTime m = 100) (notifications group_m1) = [rec_a, rec_d]
     \<and> filter (\<lambda>m. createdTime m = 100 \<and> m \<in> set (notifications group_m1)) exampleFeed
          = [rec_a, rec_d]"
proof -
  have g: "group_m1 \<in> set exampleGroups" by (simp add: exampleGroups_def)
  have t: "type group_m1 = Normal" by (simp add: group_m1_def)
  have m: "notifications group_m1 = [rec_c, rec_a, rec_d]" by (simp add: group_m1_def)
  have f: "filter (\<lambda>m. createdTime m = 100) (notifications group_m1) = [rec_a, rec_d]"
    by (simp add: m exampleFeed_fields)
  from normal_group_sorted_stable[OF exampleFeed_groups g t, of 100] exampleFeed_groups g t m f
  show ?thesis by simp
qed

subsection \<open>Subject cohesion\<close>

text \<open>
  C7, as amended. For every input and every normal group of the result, all members have
  the same partition key, which is the group's \<open>groupedById\<close>: the
  \<open>sourceContractId\<close> read as a property key, an absent one reading
  \<^verbatim>\<open>"undefined"\<close>. Hence, in a group none of whose members carries the literal id
  \<^verbatim>\<open>"undefined"\<close>, all members share the same \<open>sourceContractId\<close> or all lack one.
\<close>

theorem subject_cohesion_by_key:
  assumes "groupNotifications localTZA ns = Inr groups"
    and "g \<in> set groups" and "type g = Normal"
  shows "(\<forall>m \<in> set (notifications g). contractKey m = groupedById g)
     \<and> ((\<forall>m \<in> set (notifications g). sourceContractId m \<noteq> Some ''undefined'') \<longrightarrow>
          (\<forall>m \<in> set (notifications g). \<forall>m' \<in> set (notifications g).
              sourceContractId m = sourceContractId m'))"
proof -
  have key: "\<forall>m \<in> set (notifications g). contractKey m = groupedById g"
    using assms(1,2)
  proof (cases rule: in_groups_cases)
    case (income day first rest)
    with assms(3) show ?thesis by simp
  next
    case (normal day key n)
    then show ?thesis by (simp add: set_notifications_normalGroup)
  qed
  have "sourceContractId m = sourceContractId m'"
    if "contractKey m = contractKey m'"
      "sourceContractId m \<noteq> Some ''undefined''" "sourceContractId m' \<noteq> Some ''undefined''"
    for m m'
    using that by (auto simp: contractKey_def split: option.splits)
  with key show ?thesis by metis
qed

text \<open>An instance, on the example feed.\<close>

theorem subject_cohesion_by_key_witness:
  "groupNotifications (\<lambda>_. 0) exampleFeed = Inr exampleGroups
     \<and> group_m1 \<in> set exampleGroups \<and> type group_m1 = Normal
     \<and> notifications group_m1 = [rec_c, rec_a, rec_d]
     \<and> contractKey rec_c = groupedById group_m1
     \<and> sourceContractId rec_c = sourceContractId rec_a
     \<and> sourceContractId rec_a = sourceContractId rec_d"
proof -
  have g: "group_m1 \<in> set exampleGroups" by (simp add: exampleGroups_def)
  have t: "type group_m1 = Normal" by (simp add: group_m1_def)
  have m: "notifications group_m1 = [rec_c, rec_a, rec_d]" by (simp add: group_m1_def)
  have u: "\<forall>m \<in> set (notifications group_m1). sourceContractId m \<noteq> Some ''undefined''"
    by (simp add: m rec_a_def rec_c_def rec_d_def)
  have in_c: "rec_c \<in> set (notifications group_m1)"
    and in_a: "rec_a \<in> set (notifications group_m1)"
    and in_d: "rec_d \<in> set (notifications group_m1)"
    by (simp_all add: m)
  from subject_cohesion_by_key[OF exampleFeed_groups g t]
  have key: "\<forall>m \<in> set (notifications group_m1). contractKey m = groupedById group_m1"
    and same: "\<forall>m \<in> set (notifications group_m1). \<forall>m' \<in> set (notifications group_m1).
              sourceContractId m = sourceContractId m'"
    using u by blast+
  from key in_c have 1: "contractKey rec_c = groupedById group_m1" by (rule bspec)
  from same in_c in_a have 2: "sourceContractId rec_c = sourceContractId rec_a" by blast
  from same in_a in_d have 3: "sourceContractId rec_a = sourceContractId rec_d" by blast
  from exampleFeed_groups g t m 1 2 3 show ?thesis by blast
qed

text \<open>
  The claim as first stated (all members share the same \<open>sourceContractId\<close>, or all lack
  one) fails on a day with a record whose contract id is the string \<^verbatim>\<open>"undefined"\<close>
  and a record without contract id: both are filed under the key \<^verbatim>\<open>"undefined"\<close>.
\<close>

theorem subject_cohesion_counterexample:
  "groupNotifications (\<lambda>_. 0) [rec_u1, rec_u2] = Inr [group_u]
     \<and> type group_u = Normal
     \<and> notifications group_u = [rec_u2, rec_u1]
     \<and> sourceContractId rec_u2 = None
     \<and> sourceContractId rec_u1 = Some ''undefined''"
  using undefinedId_groups by (simp add: group_u_def rec_u1_def rec_u2_def)

subsection \<open>Income classification\<close>

text \<open>
  C9. For every input, every record is a member of some group of the result, and every
  group it is a member of is an income group if its \<open>sourceType\<close> is one of bonus,
  tip, loan, betting_streak_bonus, tip_and_like, and a normal group otherwise (also when
  the \<open>sourceType\<close> is absent).
\<close>

theorem income_classification:
  assumes "groupNotifications localTZA ns = Inr groups" and "n \<in> set ns"
  shows "(\<exists>g \<in> set groups. n \<in> set (notifications g))
     \<and> (\<forall>g \<in> set groups. n \<in> set (notifications g) \<longrightarrow>
          type g = (if sourceType n \<in> {Some ''bonus'', Some ''tip'', Some ''loan'',
                        Some ''betting_streak_bonus'', Some ''tip_and_like''}
                    then Income else Normal))"
proof
  from assms(1) have "(\<Sum>g\<leftarrow>groups. mset (notifications g)) = mset ns"
    by (rule mset_members_result)
  then have "n \<in># (\<Sum>g\<leftarrow>groups. mset (notifications g))"
    using assms(2) by simp
  then show "\<exists>g \<in> set groups. n \<in> set (notifications g)"
    by (induction groups) auto
next
  show "\<forall>g \<in> set groups. n \<in> set (notifications g) \<longrightarrow>
          type g = (if sourceType n \<in> {Some ''bonus'', Some ''tip'', Some ''loan'',
                        Some ''betting_streak_bonus'', Some ''tip_and_like''}
                    then Income else Normal)"
  proof (intro ballI impI)
    fix g assume g: "g \<in> set groups" and n: "n \<in> set (notifications g)"
    from assms(1) g show "type g = (if sourceType n \<in> {Some ''bonus'', Some ''tip'', Some ''loan'',
                        Some ''betting_streak_bonus'', Some ''tip_and_like''}
                    then Income else Normal)"
    proof (cases rule: in_groups_cases)
      case (income day first rest)
      then have "n \<in> set (filter (\<lambda>n. dayOf localTZA n = day \<and> isIncome n) ns)"
        using n by simp
      then have "isIncome n" by simp
      then show ?thesis
        using income(2) by (simp add: isIncome_iff)
    next
      case (normal day key n')
      then have "\<not> isIncome n"
        using n by (simp add: set_notifications_normalGroup)
      then show ?thesis
        using normal(5) by (simp add: isIncome_iff)
    qed
  qed
qed

text \<open>An instance, on the example feed.\<close>

theorem income_classification_witness:
  "groupNotifications (\<lambda>_. 0) exampleFeed = Inr exampleGroups
     \<and> rec_b \<in> set exampleFeed
     \<and> group_income \<in> set exampleGroups \<and> rec_b \<in> set (notifications group_income)
     \<and> sourceType rec_b = Some ''tip'' \<and> type group_income = Income"
proof -
  have n: "rec_b \<in> set exampleFeed" by (simp add: exampleFeed_def)
  have g: "group_income \<in> set exampleGroups" by (simp add: exampleGroups_def)
  have m: "rec_b \<in> set (notifications group_income)" by (simp add: group_income_def)
  have s: "sourceType rec_b = Some ''tip''" by (simp add: rec_b_def)
  from income_classification[OF exampleFeed_groups n] g m s
  have "type group_income = Income" by auto
  with exampleFeed_groups n g m s show ?thesis by simp
qed

subsection \<open>The income group of a day\<close>

text \<open>
  C4. For every input and every day with at least one income record, the result has
  exactly one income group for that day. Its members are that day's income records in
  input order, its \<open>groupedById\<close> is \<^verbatim>\<open>"income"\<close> followed by the day label, and
  its \<open>isSeen\<close> flag is the \<open>isSeen\<close> of the first income record of the day.
\<close>

theorem income_group_of_day:
  assumes "groupNotifications localTZA ns = Inr groups"
    and "filter (\<lambda>n. dayOf localTZA n = day \<and> isIncome n) ns = first # rest"
  shows "filter (\<lambda>g. type g = Income \<and> timePeriod g = day) groups =
     [\<lparr> notifications = first # rest, groupedById = ''income'' @ day,
        isSeen = Notification.isSeen first, timePeriod = day, type = Income \<rparr>]"
proof -
  have "first \<in> set (filter (\<lambda>n. dayOf localTZA n = day \<and> isIncome n) ns)"
    using assms(2) by simp
  then have day: "day \<in> dayOf localTZA ` set ns" by auto
  have "filter (\<lambda>g. type g = Income \<and> timePeriod g = day) groups
      = filter (\<lambda>g. type g = Income) (filter (\<lambda>g. timePeriod g = day) groups)"
    by (simp add: conj_commute)
  also have "\<dots> = incomeGroups day (filter (\<lambda>n. dayOf localTZA n = day \<and> isIncome n) ns)"
    using day by (simp add: groups_of_day[OF assms(1)] filter_Income_dayGroups)
  finally show ?thesis
    by (simp add: assms(2) incomeGroups_def)
qed

text \<open>An instance, on the example feed.\<close>

theorem income_group_of_day_witness:
  "groupNotifications (\<lambda>_. 0) exampleFeed = Inr exampleGroups
     \<and> filter (\<lambda>n. dayOf (\<lambda>_. 0) n = ''Thu Jan 01 1970'' \<and> isIncome n) exampleFeed
          = [rec_b, rec_f]
     \<and> filter (\<lambda>g. type g = Income \<and> timePeriod g = ''Thu Jan 01 1970'') exampleGroups
          = [group_income]
     \<and> NotificationGroup.isSeen group_income = Notification.isSeen rec_b"
proof -
  have f: "filter (\<lambda>n. dayOf (\<lambda>_. 0) n = ''Thu Jan 01 1970'' \<and> isIncome n) exampleFeed
      = [rec_b, rec_f]"
    by (simp add: exampleFeed_def exampleFeed_days exampleFeed_income)
  from income_group_of_day[OF exampleFeed_groups f]
  have "filter (\<lambda>g. type g = Income \<and> timePeriod g = ''Thu Jan 01 1970'') exampleGroups
      = [group_income]"
    by (simp add: group_income_def exampleFeed_fields)
  with exampleFeed_groups f show ?thesis
    by (simp add: group_income_def exampleFeed_fields)
qed

subsection \<open>Records without a contract id\<close>

text \<open>
  C3, as amended. For every input and every day with a normal record that lacks a
  \<open>sourceContractId\<close>, the result has exactly one normal group for that day whose
  \<open>groupedById\<close> is the string \<^verbatim>\<open>"undefined"\<close> (not the empty string); it contains
  every normal record of the day that lacks a \<open>sourceContractId\<close>, and no other normal
  group of the day contains such a record.
\<close>

theorem no_contract_id_group:
  assumes "groupNotifications localTZA ns = Inr groups"
    and "n \<in> set ns" and "\<not> isIncome n" and "sourceContractId n = None"
  shows "\<exists>g. filter (\<lambda>g'. type g' = Normal \<and> timePeriod g' = dayOf localTZA n
                    \<and> groupedById g' = ''undefined'') groups = [g]
     \<and> (\<forall>m \<in> set ns. dayOf localTZA m = dayOf localTZA n \<and> \<not> isIncome m
            \<and> sourceContractId m = None \<longrightarrow> m \<in> set (notifications g))
     \<and> (\<forall>g' \<in> set groups. type g' = Normal \<and> timePeriod g' = dayOf localTZA n
            \<and> (\<exists>m \<in> set (notifications g'). sourceContractId m = None) \<longrightarrow> g' = g)"
proof -
  let ?day = "dayOf localTZA n"
  let ?normals = "filter (\<lambda>m. dayOf localTZA m = ?day \<and> \<not> isIncome m) ns"
  let ?g = "normalGroup ?day ?normals ''undefined''"
  let ?P = "\<lambda>g'. type g' = Normal \<and> timePeriod g' = ?day \<and> groupedById g' = ''undefined''"
  have key: "''undefined'' \<in> contractKey ` set ?normals"
    using assms(2-4) by (force simp: contractKey_def)
  have "filter ?P groups
      = filter (\<lambda>g'. groupedById g' = ''undefined'')
          (filter (\<lambda>g'. type g' = Normal) (filter (\<lambda>g'. timePeriod g' = ?day) groups))"
    by (auto intro: filter_cong)
  also have "\<dots> = [?g]"
    using assms(2) key
    by (simp add: groups_of_day[OF assms(1)] filter_Normal_dayGroups filter_key_normalGroups)
  finally have single: "filter ?P groups = [?g]" .
  have all_in: "\<forall>m \<in> set ns. dayOf localTZA m = ?day \<and> \<not> isIncome m
            \<and> sourceContractId m = None \<longrightarrow> m \<in> set (notifications ?g)"
    by (auto simp: set_notifications_normalGroup contractKey_def)
  have only: "\<forall>g' \<in> set groups. type g' = Normal \<and> timePeriod g' = ?day
            \<and> (\<exists>m \<in> set (notifications g'). sourceContractId m = None) \<longrightarrow> g' = ?g"
  proof (intro ballI impI)
    fix g' assume g': "g' \<in> set groups"
      and h: "type g' = Normal \<and> timePeriod g' = ?day
            \<and> (\<exists>m \<in> set (notifications g'). sourceContractId m = None)"
    then obtain m where m: "m \<in> set (notifications g')" "sourceContractId m = None"
      by blast
    from assms(1) g' have "groupedById g' = ''undefined''"
    proof (cases rule: in_groups_cases)
      case (income day first rest)
      with h show ?thesis by simp
    next
      case (normal day key n')
      with m show ?thesis
        by (auto simp: set_notifications_normalGroup contractKey_def)
    qed
    with h g' have "g' \<in> set (filter ?P groups)" by simp
    then show "g' = ?g" unfolding single by simp
  qed
  from single all_in only show ?thesis by blast
qed

text \<open>An instance, on the example feed.\<close>

theorem no_contract_id_group_witness:
  "groupNotifications (\<lambda>_. 0) exampleFeed = Inr exampleGroups
     \<and> rec_e \<in> set exampleFeed \<and> \<not> isIncome rec_e \<and> sourceContractId rec_e = None
     \<and> filter (\<lambda>g'. type g' = Normal \<and> timePeriod g' = dayOf (\<lambda>_. 0) rec_e
                    \<and> groupedById g' = ''undefined'') exampleGroups = [group_undefined]
     \<and> rec_e \<in> set (notifications group_undefined)"
proof -
  have n: "rec_e \<in> set exampleFeed" by (simp add: exampleFeed_def)
  have i: "\<not> isIncome rec_e" by (simp add: exampleFeed_income)
  have c: "sourceContractId rec_e = None" by (simp add: rec_e_def)
  from no_contract_id_group[OF exampleFeed_groups n i c]
  obtain g where g: "filter (\<lambda>g'. type g' = Normal \<and> timePeriod g' = dayOf (\<lambda>_. 0) rec_e
                    \<and> groupedById g' = ''undefined'') exampleGroups = [g]"
    and all_in: "\<forall>m \<in> set exampleFeed. dayOf (\<lambda>_. 0) m = dayOf (\<lambda>_. 0) rec_e \<and> \<not> isIncome m
            \<and> sourceContractId m = None \<longrightarrow> m \<in> set (notifications g)"
    by blast
  have "filter (\<lambda>g'. type g' = Normal \<and> timePeriod g' = dayOf (\<lambda>_. 0) rec_e
                    \<and> groupedById g' = ''undefined'') exampleGroups = [group_undefined]"
    by (simp add: exampleGroups_def group_income_def group_m1_def group_undefined_def
          exampleFeed_days)
  with g have eq: "g = group_undefined" by simp
  from all_in n i c have "rec_e \<in> set (notifications g)" by blast
  with g eq exampleFeed_groups n i c show ?thesis by simp
qed

text \<open>
  The claim as first stated gives the group the empty string as key. A single record
  without contract id is grouped under the key \<^verbatim>\<open>"undefined"\<close>.
\<close>

theorem empty_sentinel_counterexample:
  "sourceContractId rec_e = None
     \<and> groupNotifications (\<lambda>_. 0) [rec_e] = Inr [group_undefined]
     \<and> groupedById group_undefined \<noteq> []"
  using noContract_groups by (simp add: group_undefined_def rec_e_def)

subsection \<open>Uniqueness of the group keys\<close>

text \<open>
  C2, as amended. For every input, the triples of \<open>timePeriod\<close>, \<open>type\<close> and
  \<open>groupedById\<close> of the groups of the result are pairwise distinct: no key repeats
  among the groups of one day and one type. (The key alone can repeat, across days and
  between an income and a normal group.)
\<close>

theorem group_tags_distinct:
  assumes "groupNotifications localTZA ns = Inr groups"
  shows "distinct (map (\<lambda>g. (timePeriod g, type g, groupedById g)) groups)"
proof -
  let ?F = "\<lambda>day. map groupTag (dayGroups day (filter (\<lambda>n. dayOf localTZA n = day) ns))"
  have "distinct (concat (map ?F (firstSeen (map (dayOf localTZA) ns))))"
  proof (rule distinct_concat_tagged[where tag = fst])
    show "distinct (firstSeen (map (dayOf localTZA) ns))" by simp
  next
    fix k show "distinct (?F k)" by (rule distinct_groupTag_dayGroups)
  next
    fix k y assume "y \<in> set (?F k)"
    then show "fst y = k"
      by (auto simp: groupTag_def timePeriod_dayGroups)
  qed
  moreover have "map groupTag groups = concat (map ?F (firstSeen (map (dayOf localTZA) ns)))"
    using assms by (auto simp: groupNotifications_eq map_concat comp_def)
  ultimately show ?thesis
    by (simp add: groupTag_def[abs_def])
qed

text \<open>An instance, on the example feed.\<close>

theorem group_tags_distinct_witness:
  "groupNotifications (\<lambda>_. 0) exampleFeed = Inr exampleGroups
     \<and> distinct (map (\<lambda>g. (timePeriod g, type g, groupedById g)) exampleGroups)"
  using group_tags_distinct[OF exampleFeed_groups] exampleFeed_groups by simp

text \<open>
  The claim as first stated (the keys alone are pairwise distinct over the whole result)
  fails for one contract with a record on each of two days.
\<close>

theorem groupKey_unique_counterexample:
  "groupNotifications (\<lambda>_. 0) [rec_x1, rec_x2] = Inr [group_x1, group_x2]
     \<and> \<not> distinct (map groupedById [group_x1, group_x2])"
  by (simp add: twoDays_groups group_x1_def group_x2_def)

subsection \<open>Order of the groups\<close>

text \<open>
  C8, as amended. For every input, the groups of the result are ordered as follows: the
  days in the order they first appear in the input; within each day the income group
  first, if the day has an income record, then the day's normal groups, ordered by their
  keys as \<^verbatim>\<open>Object.keys\<close> lists them: first the keys that are array indices (the
  decimal numeral of an integer from 0 to \<open>2^32 - 2\<close>), in ascending numeric order,
  then the other keys in the order they first appear among that day's normal records.
  In particular, on every day none of whose normal records has an array index as
  \<open>sourceContractId\<close>, the normal groups stand in the order their keys first appear
  among that day's normal records.
\<close>

theorem output_order:
  assumes "groupNotifications localTZA ns = Inr groups"
  shows "map (\<lambda>g. (timePeriod g, type g, groupedById g)) groups =
       concat (map (\<lambda>day.
           (if \<exists>n \<in> set ns. dayOf localTZA n = day \<and> isIncome n
            then [(day, Income, ''income'' @ day)] else [])
           @ map (\<lambda>key. (day, Normal, key))
               (ownPropertyKeys (firstSeen (map contractKey
                  (filter (\<lambda>n. dayOf localTZA n = day \<and> \<not> isIncome n) ns)))))
         (firstSeen (map (dayOf localTZA) ns)))
     \<and> ((\<forall>n \<in> set ns. dayOf localTZA n = d \<and> \<not> isIncome n \<longrightarrow> \<not> isArrayIndex (contractKey n))
          \<longrightarrow> ownPropertyKeys (firstSeen (map contractKey
                  (filter (\<lambda>n. dayOf localTZA n = d \<and> \<not> isIncome n) ns)))
              = firstSeen (map contractKey
                  (filter (\<lambda>n. dayOf localTZA n = d \<and> \<not> isIncome n) ns)))"
proof
  let ?F = "\<lambda>day. map groupTag (dayGroups day (filter (\<lambda>n. dayOf localTZA n = day) ns))"
  let ?ks = "\<lambda>day. firstSeen (map contractKey (filter (\<lambda>n. dayOf localTZA n = day \<and> \<not> isIncome n) ns))"
  have day: "?F day =
         (if \<exists>n \<in> set ns. dayOf localTZA n = day \<and> isIncome n
          then [(day, Income, ''income'' @ day)] else [])
         @ map (\<lambda>key. (day, Normal, key)) (ownPropertyKeys (?ks day))" for day
    by (auto simp add: map_groupTag_dayGroups)
  have "map groupTag groups = concat (map ?F (firstSeen (map (dayOf localTZA) ns)))"
    using assms by (auto simp: groupNotifications_eq map_concat comp_def)
  then have "map groupTag groups = concat (map (\<lambda>day.
         (if \<exists>n \<in> set ns. dayOf localTZA n = day \<and> isIncome n
          then [(day, Income, ''income'' @ day)] else [])
         @ map (\<lambda>key. (day, Normal, key)) (ownPropertyKeys (?ks day)))
       (firstSeen (map (dayOf localTZA) ns)))"
    by (simp only: day)
  then show "map (\<lambda>g. (timePeriod g, type g, groupedById g)) groups =
       concat (map (\<lambda>day.
           (if \<exists>n \<in> set ns. dayOf localTZA n = day \<and> isIncome n
            then [(day, Income, ''income'' @ day)] else [])
           @ map (\<lambda>key. (day, Normal, key)) (ownPropertyKeys (?ks day)))
         (firstSeen (map (dayOf localTZA) ns)))"
    by (simp only: groupTag_def[abs_def])
  show "(\<forall>n \<in> set ns. dayOf localTZA n = d \<and> \<not> isIncome n \<longrightarrow> \<not> isArrayIndex (contractKey n))
          \<longrightarrow> ownPropertyKeys (?ks d) = ?ks d"
  proof
    assume "\<forall>n \<in> set ns. dayOf localTZA n = d \<and> \<not> isIncome n \<longrightarrow> \<not> isArrayIndex (contractKey n)"
    then show "ownPropertyKeys (?ks d) = ?ks d"
      by (intro ownPropertyKeys_plain) auto
  qed
qed

text \<open>
  An instance, on the example feed: the order of its three groups, and the keys of the
  normal groups of its first day, none of which is an array index.
\<close>

theorem output_order_witness:
  "groupNotifications (\<lambda>_. 0) exampleFeed = Inr exampleGroups
     \<and> \<not> (\<exists>n \<in> set exampleFeed. dayOf (\<lambda>_. 0) n = ''Thu Jan 01 1970'' \<and> \<not> isIncome n
            \<and> isArrayIndex (contractKey n))
     \<and> map (\<lambda>g. (timePeriod g, type g, groupedById g)) exampleGroups =
         [(''Thu Jan 01 1970'', Income, ''incomeThu Jan 01 1970''),
          (''Thu Jan 01 1970'', Normal, ''m1''),
          (''Fri Jan 02 1970'', Normal, ''undefined'')]
     \<and> ownPropertyKeys (firstSeen (map contractKey
           (filter (\<lambda>n. dayOf (\<lambda>_. 0) n = ''Thu Jan 01 1970'' \<and> \<not> isIncome n) exampleFeed)))
         = [''m1'']"
proof -
  have h: "\<forall>n \<in> set exampleFeed. dayOf (\<lambda>_. 0) n = ''Thu Jan 01 1970'' \<and> \<not> isIncome n
      \<longrightarrow> \<not> isArrayIndex (contractKey n)"
    by (simp add: exampleFeed_def exampleFeed_income exampleFeed_keys exampleFeed_days
          not_index_evals)
  note order = output_order[OF exampleFeed_groups, of "''Thu Jan 01 1970''"]
  from order have tags: "map (\<lambda>g. (timePeriod g, type g, groupedById g)) exampleGroups =
         [(''Thu Jan 01 1970'', Income, ''incomeThu Jan 01 1970''),
          (''Thu Jan 01 1970'', Normal, ''m1''),
          (''Fri Jan 02 1970'', Normal, ''undefined'')]"
    by (simp add: exampleFeed_def exampleFeed_days exampleFeed_income exampleFeed_keys
          ownPropertyKeys_def not_index_evals)
  from order h have "ownPropertyKeys (firstSeen (map contractKey
           (filter (\<lambda>n. dayOf (\<lambda>_. 0) n = ''Thu Jan 01 1970'' \<and> \<not> isIncome n) exampleFeed)))
         = firstSeen (map contractKey
           (filter (\<lambda>n. dayOf (\<lambda>_. 0) n = ''Thu Jan 01 1970'' \<and> \<not> isIncome n) exampleFeed))"
    by blast
  then have keys: "ownPropertyKeys (firstSeen (map contractKey
           (filter (\<lambda>n. dayOf (\<lambda>_. 0) n = ''Thu Jan 01 1970'' \<and> \<not> isIncome n) exampleFeed)))
         = [''m1'']"
    by (simp add: exampleFeed_def exampleFeed_days exampleFeed_income exampleFeed_keys)
  from h exampleFeed_groups tags keys show ?thesis by blast
qed

text \<open>
  The claim as first stated (the normal groups in the order their keys first appear,
  for every input) fails for the contract ids \<^verbatim>\<open>"2"\<close> and \<^verbatim>\<open>"1"\<close>, met in this
  order: array-index keys are listed in ascending numeric order.
\<close>

theorem output_order_counterexample:
  "groupNotifications (\<lambda>_. 0) [rec_k2, rec_k1] = Inr [group_k1, group_k2]
     \<and> firstSeen (map contractKey [rec_k2, rec_k1]) = [''2'', ''1'']
     \<and> map groupedById [group_k1, group_k2] = [''1'', ''2'']"
  by (simp add: indexIds_groups group_k1_def group_k2_def other_keys)

end
